theory Spec2Isabelle
  imports Main
begin

section \<open>The wire: JSON values and Go errors\<close>

text \<open>
  The package \<open>routingv8\<close> consists of struct declarations with \<open>json\<close> tags, one custom
  decoding method (\<open>ErrorCodes.UnmarshalJSON\<close>) and one operation (\<open>RoutingService.Routes\<close>).
  What the declarations mean is fixed by Go's \<open>encoding/json\<close>, which walks them by
  reflection. The declarations are therefore transcribed as data (type descriptors with
  their tags), and \<open>encoding/json\<close> is modelled as a decoder over these descriptors,
  following the package documentation of \<open>encoding/json\<close>.

  A JSON text is represented by the value it denotes. Number literals keep the one
  syntactic distinction Go's decoder is sensitive to: \<open>JInt n\<close> is a literal made of an
  optional minus sign and digits, \<open>JFrac s\<close> is a literal \<open>s\<close> with a fraction or an
  exponent. Object members are kept in the order of the text, duplicates included.
\<close>

datatype json =
    JNull
  | JBool bool
  | JInt int
  | JFrac string
  | JString string
  | JArray "json list"
  | JObject "(string \<times> json) list"

text \<open>
  A byte slice handed to \<open>json.Unmarshal\<close> either is not valid JSON (the scanner's message
  is kept) or denotes a value.
\<close>

datatype bytes = Invalid string | Valid json

section \<open>Go types and values\<close>

text \<open>
  \<open>TNamed\<close> is a type declared in this package, \<open>TExternal\<close> a type declared elsewhere
  (\<open>time.Time\<close>, \<open>GeoWaypoint\<close>, \<open>RegionDefinition\<close>), of which only the name is known here.
  A struct field is its Go name, its type and its tag, the tag as the list of
  \<open>key:"value"\<close> pairs it is written as.
\<close>

datatype gotype =
    TInt
  | TInt32
  | TFloat64
  | TString
  | TSlice gotype
  | TStruct "field list"
  | TNamed string gotype
  | TExternal string
and field = Field (fname: string) (ftype: gotype) (ftag: "(string \<times> string) list")

text \<open>
  Go values. \<open>int\<close> is taken as 64 bits wide. A slice is \<open>None\<close> when nil. Values of
  \<open>float64\<close> and of external types are not interpreted: they are values of a type
  parameter, \<open>VExt None\<close> being the zero value.
\<close>

datatype 'x goval =
    VInt int
  | VString string
  | VSlice "'x goval list option"
  | VStruct "'x goval list"
  | VExt "'x option"

datatype error =
    errorString string
  | SyntaxError string
  | UnmarshalTypeError string gotype
  | OtherError string

function zero :: "gotype \<Rightarrow> 'x goval" where
  "zero TInt = VInt 0"
| "zero TInt32 = VInt 0"
| "zero TFloat64 = VExt None"
| "zero TString = VString []"
| "zero (TSlice t) = VSlice None"
| "zero (TStruct fs) = VStruct (map (\<lambda>f. zero (ftype f)) fs)"
| "zero (TNamed n t) = zero t"
| "zero (TExternal n) = VExt None"
  by pat_completeness auto
termination
proof (relation "measure size")
  fix fs :: "field list" and f
  assume "f \<in> set fs"
  then have "size (ftype f) < Suc (size_list size fs)"
  proof (induction fs)
    case Nil
    then show ?case by simp
  next
    case (Cons g gs)
    then show ?case by (cases g) auto
  qed
  then show "(ftype f, TStruct fs) \<in> measure size" by simp
qed simp_all

section \<open>Struct tags and member names\<close>

text \<open>
  The name under which \<open>encoding/json\<close> reads and writes a field: the part of the
  \<open>json\<close> tag before the first comma, or the Go field name when the field has no \<open>json\<close>
  tag or the tag's name is empty. A field tagged \<open>json:"-"\<close> is left out. (No struct of
  this package embeds another one or repeats a name, so Go's rules for those do not
  arise.)
\<close>

definition tag_Get :: "(string \<times> string) list \<Rightarrow> string \<Rightarrow> string" where
  "tag_Get tag key = (case map_of tag key of None \<Rightarrow> [] | Some v \<Rightarrow> v)"

definition json_name :: "field \<Rightarrow> string" where
  "json_name f =
     (let name = takeWhile (\<lambda>c. c \<noteq> CHR '','') (tag_Get (ftag f) ''json'')
      in if name = [] then fname f else name)"

definition json_ignored :: "field \<Rightarrow> bool" where
  "json_ignored f = (tag_Get (ftag f) ''json'' = ''-'')"

definition omitempty :: "field \<Rightarrow> bool" where
  "omitempty f =
     (dropWhile (\<lambda>c. c \<noteq> CHR '','') (tag_Get (ftag f) ''json'') = '',omitempty'')"

text \<open>
  An object key selects the field whose name it equals, and otherwise the first field
  whose name it equals under Unicode simple case folding. Names are byte strings in
  UTF-8. All names of this package are ASCII, and the only non-ASCII letters that fold
  to ASCII ones are the Kelvin sign (bytes E2 84 AA, folds with \<open>k\<close>) and the long s
  (bytes C5 BF, folds with \<open>s\<close>); every other byte outside \<open>A\<close>..\<open>Z\<close> is kept.
\<close>

definition lower :: "char \<Rightarrow> char" where
  "lower c =
     (if (65::nat) \<le> of_char c \<and> of_char c \<le> (90::nat)
      then char_of (of_char c + (32::nat)) else c)"

fun foldName :: "string \<Rightarrow> string" where
  "foldName (a # b # c # cs) =
     (if of_char a = (226::nat) \<and> of_char b = (132::nat) \<and> of_char c = (170::nat)
      then CHR ''k'' # foldName cs
      else if of_char a = (197::nat) \<and> of_char b = (191::nat)
      then CHR ''s'' # foldName (c # cs)
      else lower a # foldName (b # c # cs))"
| "foldName [a, b] =
     (if of_char a = (197::nat) \<and> of_char b = (191::nat)
      then [CHR ''s''] else [lower a, lower b])"
| "foldName [a] = [lower a]"
| "foldName [] = []"

fun index_where :: "('a \<Rightarrow> bool) \<Rightarrow> 'a list \<Rightarrow> nat option" where
  "index_where P [] = None"
| "index_where P (x # xs) =
     (if P x then Some 0 else map_option Suc (index_where P xs))"

definition find_field :: "field list \<Rightarrow> string \<Rightarrow> nat option" where
  "find_field fs key =
     (case index_where (\<lambda>f. \<not> json_ignored f \<and> json_name f = key) fs of
        Some i \<Rightarrow> Some i
      | None \<Rightarrow>
          index_where (\<lambda>f. \<not> json_ignored f \<and> foldName (json_name f) = foldName key) fs)"

section \<open>Decoding: \<open>json.Unmarshal\<close>\<close>

text \<open>
  What this file does not fix is a parameter: how a number literal is read into a
  \<open>float64\<close> (\<open>None\<close> when it is out of range), and how a value of an external type is
  decoded. The latter returns either an error that aborts the decode (as an
  \<open>UnmarshalJSON\<close> method of the type would) or the new value together with an optional
  type error to be recorded. For encoding: how a \<open>float64\<close> is written (an error for
  NaN and the infinities), whether it is zero, and how a value of an external type is
  written.
\<close>

record 'x env =
  ParseFloat :: "json \<Rightarrow> 'x option"
  ext_Unmarshal :: "string \<Rightarrow> json \<Rightarrow> 'x option \<Rightarrow> error + ('x option \<times> error option)"
  FormatFloat :: "'x \<Rightarrow> error + json"
  float_IsZero :: "'x \<Rightarrow> bool"
  ext_Marshal :: "string \<Rightarrow> 'x option \<Rightarrow> error + json"

text \<open>
  The decoder state is the destination and the first type error recorded so far
  (\<open>d.savedError\<close>). A type mismatch records an \<open>UnmarshalTypeError\<close> and decoding goes on;
  an error returned by an \<open>UnmarshalJSON\<close> method stops it. The \<open>Value\<close> of an
  \<open>UnmarshalTypeError\<close> is kept as the kind of the JSON value; offsets and the struct and
  field context are left out.
\<close>

definition saveError :: "error option \<Rightarrow> error \<Rightarrow> error option" where
  "saveError s e = (case s of None \<Rightarrow> Some e | Some e0 \<Rightarrow> Some e0)"

definition fits_int :: "int \<Rightarrow> bool" where
  "fits_int n = (- (2 ^ 63) \<le> n \<and> n < 2 ^ 63)"

definition fits_int32 :: "int \<Rightarrow> bool" where
  "fits_int32 n = (- (2 ^ 31) \<le> n \<and> n < 2 ^ 31)"

text \<open>
  \<open>literalStore\<close>: null sets a slice to nil and has no effect on numbers, strings and
  structs; a string goes into a string; a number into an integer if it is written as an
  integer and fits, into a \<open>float64\<close> if it is in range; everything else is a type error.
  No type of this package has a boolean or a byte slice.
\<close>

fun literalStore ::
  "'x env \<Rightarrow> gotype \<Rightarrow> json \<Rightarrow> 'x goval \<times> error option \<Rightarrow> 'x goval \<times> error option" where
  "literalStore env (TSlice t) JNull (d, s) = (VSlice None, s)"
| "literalStore env t JNull (d, s) = (d, s)"
| "literalStore env t (JBool b) (d, s) = (d, saveError s (UnmarshalTypeError ''bool'' t))"
| "literalStore env TString (JString str) (d, s) = (VString str, s)"
| "literalStore env t (JString str) (d, s) = (d, saveError s (UnmarshalTypeError ''string'' t))"
| "literalStore env TInt (JInt n) (d, s) =
     (if fits_int n then (VInt n, s) else (d, saveError s (UnmarshalTypeError ''number'' TInt)))"
| "literalStore env TInt32 (JInt n) (d, s) =
     (if fits_int32 n then (VInt n, s) else (d, saveError s (UnmarshalTypeError ''number'' TInt32)))"
| "literalStore env TFloat64 (JInt n) (d, s) =
     (case ParseFloat env (JInt n) of
        Some x \<Rightarrow> (VExt (Some x), s)
      | None \<Rightarrow> (d, saveError s (UnmarshalTypeError ''number'' TFloat64)))"
| "literalStore env TFloat64 (JFrac l) (d, s) =
     (case ParseFloat env (JFrac l) of
        Some x \<Rightarrow> (VExt (Some x), s)
      | None \<Rightarrow> (d, saveError s (UnmarshalTypeError ''number'' TFloat64)))"
| "literalStore env t (JInt n) (d, s) = (d, saveError s (UnmarshalTypeError ''number'' t))"
| "literalStore env t (JFrac l) (d, s) = (d, saveError s (UnmarshalTypeError ''number'' t))"
| "literalStore env t (JArray xs) (d, s) = (d, saveError s (UnmarshalTypeError ''array'' t))"
| "literalStore env t (JObject kvs) (d, s) = (d, saveError s (UnmarshalTypeError ''object'' t))"

text \<open>
  \<open>um\<close> is the table of the \<open>UnmarshalJSON\<close> methods of named types: Go looks the method
  up first, whatever the JSON value is (null included). An array resets the slice and
  appends each element, decoded into a zero element, as the package documentation has
  it (when an object repeats a key, the implementation may decode into an element the
  earlier occurrence left in the backing array); an empty array gives an empty, non-nil
  slice. An object is read member by member, in the order of the text, into the fields
  of the struct as they are at that point; a key that selects no field is skipped.
\<close>

type_synonym 'x Unmarshaler = "'x goval \<Rightarrow> bytes \<Rightarrow> 'x goval \<times> error option"

function (sequential)
  decode :: "(string \<Rightarrow> 'x Unmarshaler option) \<Rightarrow> 'x env \<Rightarrow> gotype \<Rightarrow> json \<Rightarrow>
             'x goval \<times> error option \<Rightarrow> error + ('x goval \<times> error option)"
and
  decode_elems :: "(string \<Rightarrow> 'x Unmarshaler option) \<Rightarrow> 'x env \<Rightarrow> gotype \<Rightarrow> json list \<Rightarrow>
             'x goval list \<times> error option \<Rightarrow> error + ('x goval list \<times> error option)"
and
  decode_fields :: "(string \<Rightarrow> 'x Unmarshaler option) \<Rightarrow> 'x env \<Rightarrow> field list \<Rightarrow>
             (string \<times> json) list \<Rightarrow>
             'x goval list \<times> error option \<Rightarrow> error + ('x goval list \<times> error option)"
where
  "decode um env (TNamed n u) j (d, s) =
     (case um n of
        Some UnmarshalJSON \<Rightarrow>
          (case UnmarshalJSON d (Valid j) of
             (d', None) \<Rightarrow> Inr (d', s)
           | (d', Some err) \<Rightarrow> Inl err)
      | None \<Rightarrow> decode um env u j (d, s))"
| "decode um env (TExternal n) j (d, s) =
     (case ext_Unmarshal env n j (case d of VExt x \<Rightarrow> x | _ \<Rightarrow> None) of
        Inl err \<Rightarrow> Inl err
      | Inr (x, None) \<Rightarrow> Inr (VExt x, s)
      | Inr (x, Some err) \<Rightarrow> Inr (VExt x, saveError s err))"
| "decode um env (TSlice t) (JArray xs) (d, s) =
     (case decode_elems um env t xs ([], s) of
        Inl err \<Rightarrow> Inl err
      | Inr (vs, s') \<Rightarrow> Inr (VSlice (Some vs), s'))"
| "decode um env (TStruct fs) (JObject kvs) (d, s) =
     (case d of
        VStruct vals \<Rightarrow>
          (case decode_fields um env fs kvs (vals, s) of
             Inl err \<Rightarrow> Inl err
           | Inr (vals', s') \<Rightarrow> Inr (VStruct vals', s'))
      | _ \<Rightarrow> Inr (d, s))"
| "decode um env TInt j (d, s) = Inr (literalStore env TInt j (d, s))"
| "decode um env TInt32 j (d, s) = Inr (literalStore env TInt32 j (d, s))"
| "decode um env TFloat64 j (d, s) = Inr (literalStore env TFloat64 j (d, s))"
| "decode um env TString j (d, s) = Inr (literalStore env TString j (d, s))"
| "decode um env (TSlice t) j (d, s) = Inr (literalStore env (TSlice t) j (d, s))"
| "decode um env (TStruct fs) j (d, s) = Inr (literalStore env (TStruct fs) j (d, s))"
| "decode_elems um env t [] (vs, s) = Inr (vs, s)"
| "decode_elems um env t (x # xs) (vs, s) =
     (case decode um env t x (zero t, s) of
        Inl err \<Rightarrow> Inl err
      | Inr (v, s') \<Rightarrow> decode_elems um env t xs (vs @ [v], s'))"
| "decode_fields um env fs [] (vals, s) = Inr (vals, s)"
| "decode_fields um env fs ((key, v) # kvs) (vals, s) =
     (case find_field fs key of
        None \<Rightarrow> decode_fields um env fs kvs (vals, s)
      | Some i \<Rightarrow>
          if i < length vals \<and> i < length fs then
            (case decode um env (ftype (fs ! i)) v (vals ! i, s) of
               Inl err \<Rightarrow> Inl err
             | Inr (v', s') \<Rightarrow> decode_fields um env fs kvs (vals[i := v'], s'))
          else decode_fields um env fs kvs (vals, s))"
  by pat_completeness auto
termination
  by (relation "inv_image (less_than <*lex*> less_than)
        (\<lambda>x. case x of
           Inl (um, env, t, j, st) \<Rightarrow> (size j, size t)
         | Inr (Inl (um, env, t, js, st)) \<Rightarrow> (size_list size js, 0)
         | Inr (Inr (um, env, fs, kvs, st)) \<Rightarrow> (size_list (size_prod (\<lambda>_. 0) size) kvs, 0))")
     auto

text \<open>
  \<open>json.Unmarshal(b, &d)\<close>: a syntax error if the text is not valid JSON, otherwise the
  error that stopped the decode or the first type error recorded, otherwise success.
  The partly written destination of a failed call is not represented: both callers in
  this package discard it.
\<close>

definition json_Unmarshal ::
  "(string \<Rightarrow> 'x Unmarshaler option) \<Rightarrow> 'x env \<Rightarrow> gotype \<Rightarrow> bytes \<Rightarrow> 'x goval \<Rightarrow> error + 'x goval" where
  "json_Unmarshal um env t b d =
     (case b of
        Invalid msg \<Rightarrow> Inl (SyntaxError msg)
      | Valid j \<Rightarrow>
          (case decode um env t j (d, None) of
             Inl err \<Rightarrow> Inl err
           | Inr (d', Some err) \<Rightarrow> Inl err
           | Inr (d', None) \<Rightarrow> Inr d'))"

section \<open>The package \<open>routingv8\<close>: \<open>ErrorCodes\<close>\<close>

text \<open>
  \<open>type ErrorCode int\<close> and \<open>type ErrorCodes []ErrorCode\<close>, with the named codes.
\<close>

definition ErrorCode :: gotype where
  "ErrorCode = TNamed ''ErrorCode'' TInt"

definition ErrorCodes :: gotype where
  "ErrorCodes = TNamed ''ErrorCodes'' (TSlice ErrorCode)"

definition ErrorCodeSuccess :: int where "ErrorCodeSuccess = 0"
definition ErrorCodeDisconnected :: int where "ErrorCodeDisconnected = 1"
definition ErrorCodeMatchingFailed :: int where "ErrorCodeMatchingFailed = 2"
definition ErrorCodeParameterViolation :: int where "ErrorCodeParameterViolation = 3"
definition ErrorCodeUnknown :: int where "ErrorCodeUnknown = 99"

text \<open>
  A conversion between two integer types of the same width keeps the integer, and
  ranging over a nil slice runs the body no times.
\<close>

definition convert :: "gotype \<Rightarrow> 'x goval \<Rightarrow> 'x goval" where
  "convert t v = v"

definition elems :: "'x goval \<Rightarrow> 'x goval list" where
  "elems v = (case v of VSlice (Some xs) \<Rightarrow> xs | _ \<Rightarrow> [])"

text \<open>
  \<open>func (e *ErrorCodes) UnmarshalJSON(b []byte) error\<close>. The receiver is passed in and
  the receiver after the call is returned with the error. \<open>errorCodes\<close> starts as the
  empty slice \<open>make([]int, 0)\<close> and is decoded as a plain \<open>[]int\<close>, for which no
  \<open>UnmarshalJSON\<close> method exists; the loop appends each converted element to \<open>codes\<close>.
\<close>

definition UnmarshalJSON :: "'x env \<Rightarrow> 'x goval \<Rightarrow> bytes \<Rightarrow> 'x goval \<times> error option" where
  "UnmarshalJSON env e b =
     (case json_Unmarshal (\<lambda>n. None) env (TSlice TInt) b (VSlice (Some [])) of
        Inl err \<Rightarrow> (e, Some err)
      | Inr errorCodes \<Rightarrow>
          (let codes = foldl (\<lambda>codes errorCode. codes @ [convert ErrorCode errorCode])
                         [] (elems errorCodes)
           in (VSlice (Some codes), None)))"

text \<open>The only \<open>UnmarshalJSON\<close> method the package declares is the one of \<open>ErrorCodes\<close>.\<close>

definition Unmarshalers :: "'x env \<Rightarrow> string \<Rightarrow> 'x Unmarshaler option" where
  "Unmarshalers env n = (if n = ''ErrorCodes'' then Some (UnmarshalJSON env) else None)"

definition Unmarshal :: "'x env \<Rightarrow> gotype \<Rightarrow> bytes \<Rightarrow> 'x goval \<Rightarrow> error + 'x goval" where
  "Unmarshal env t b d = json_Unmarshal (Unmarshalers env) env t b d"

section \<open>The package \<open>routingv8\<close>: the response model\<close>

text \<open>
  The struct declarations, field by field with their tags as written. The tag of
  \<open>Notice.Details\<close> is written \<open>jsopn:"details"\<close> in the source.
\<close>

definition Summary :: gotype where
  "Summary = TNamed ''Summary'' (TStruct
     [Field ''Duration'' TInt32 [(''json'', ''duration'')],
      Field ''Length'' TInt32 [(''json'', ''length'')],
      Field ''BaseDuration'' TInt32 [(''json'', ''baseDuration'')]])"

definition Place :: gotype where
  "Place = TNamed ''Place'' (TStruct
     [Field ''Type'' TString [(''json'', ''type'')],
      Field ''Location'' (TExternal ''GeoWaypoint'') [(''json'', ''location'')],
      Field ''OriginalLocation'' (TExternal ''GeoWaypoint'') [(''json'', ''originalLocation'')]])"

definition Span :: gotype where
  "Span = TNamed ''Span'' (TStruct
     [Field ''Offset'' TInt [(''json'', ''offset'')],
      Field ''Length'' TInt [(''json'', ''length'')],
      Field ''Duration'' TInt [(''json'', ''duration'')],
      Field ''SpeedLimit'' TFloat64 [(''json'', ''speedLimit,omitempty'')]])"

definition RoutePlace :: gotype where
  "RoutePlace = TNamed ''RoutePlace'' (TStruct
     [Field ''Time'' (TExternal ''time.Time'') [(''json'', ''time'')],
      Field ''Place'' Place [(''json'', ''place'')]])"

definition Incident :: gotype where
  "Incident = TNamed ''Incident'' (TStruct
     [Field ''Type'' TString [(''json'', ''type'')],
      Field ''Criticality'' TString [(''json'', ''criticality'')],
      Field ''ValidFrom'' (TExternal ''time.Time'') [(''json'', ''validFrom'')],
      Field ''ValidUntil'' (TExternal ''time.Time'') [(''json'', ''validUntil'')],
      Field ''Description'' TString [(''json'', ''description'')]])"

definition NoticeDetail :: gotype where
  "NoticeDetail = TNamed ''NoticeDetail'' (TStruct
     [Field ''Type'' TString [(''json'', ''type'')],
      Field ''Cause'' TString [(''json'', ''cause'')],
      Field ''MaxGrossWeight'' TInt [(''json'', ''maxGrossWeight'')]])"

definition Transport :: gotype where
  "Transport = TNamed ''Transport'' (TStruct
     [Field ''Mode'' TString [(''json'', ''mode'')]])"

definition Notice :: gotype where
  "Notice = TNamed ''Notice'' (TStruct
     [Field ''Title'' TString [(''json'', ''title'')],
      Field ''Code'' TString [(''json'', ''code'')],
      Field ''Severity'' TString [(''json'', ''severity'')],
      Field ''Details'' (TSlice NoticeDetail) [(''jsopn'', ''details'')]])"

definition TollSystem :: gotype where
  "TollSystem = TNamed ''TollSystem'' (TStruct
     [Field ''ID'' TInt [(''json'', ''id'')],
      Field ''Name'' TString [(''json'', ''name'')],
      Field ''LanguageCode'' TString [(''json'', ''languageCode'')]])"

definition TollCollectionLocation :: gotype where
  "TollCollectionLocation = TNamed ''TollCollectionLocation'' (TStruct
     [Field ''Name'' TString [(''json'', ''name'')],
      Field ''Location'' (TExternal ''GeoWaypoint'') [(''json'', ''location'')]])"

definition Price :: gotype where
  "Price = TNamed ''Price'' (TStruct
     [Field ''Type'' TString [(''json'', ''type'')],
      Field ''Currency'' TString [(''json'', ''currency'')],
      Field ''Value'' TFloat64 [(''json'', ''value'')]])"

definition Fare :: gotype where
  "Fare = TNamed ''Fare'' (TStruct
     [Field ''ID'' TString [(''json'', ''id'')],
      Field ''Name'' TString [(''json'', ''name'')],
      Field ''Price'' Price [(''json'', ''price'')],
      Field ''ConvertedPrice'' Price [(''json'', ''convertedPrice'')],
      Field ''Reason'' TString [(''json'', ''reason'')],
      Field ''PaymentMethods'' (TSlice TString) [(''json'', ''paymentMethods'')]])"

definition Toll :: gotype where
  "Toll = TNamed ''Toll'' (TStruct
     [Field ''CountryCode'' TString [(''json'', ''countryCode'')],
      Field ''TollSystemRef'' TInt [(''json'', ''tollSystemRef'')],
      Field ''TollSystem'' TString [(''json'', ''tollSystem'')],
      Field ''Fares'' (TSlice Fare) [(''json'', ''fares'')],
      Field ''TollCollectionLocations'' (TSlice TollCollectionLocation) [(''json'', ''tollCollectionLocations'')]])"

definition Section :: gotype where
  "Section = TNamed ''Section'' (TStruct
     [Field ''ID'' TString [(''json'', ''id'')],
      Field ''Type'' TString [(''json'', ''type'')],
      Field ''Departure'' RoutePlace [(''json'', ''departure'')],
      Field ''Arrival'' RoutePlace [(''json'', ''arrival'')],
      Field ''Summary'' Summary [(''json'', ''summary'')],
      Field ''TravelSummary'' Summary [(''json'', ''travelSummary'')],
      Field ''Polyline'' TString [(''json'', ''polyline'')],
      Field ''Spans'' (TSlice Span) [(''json'', ''spans'')],
      Field ''Notices'' (TSlice Notice) [(''json'', ''notices'')],
      Field ''Language'' TString [(''json'', ''language'')],
      Field ''Transport'' Transport [(''json'', ''transport'')],
      Field ''Incidents'' (TSlice Incident) [(''json'', ''incidents'')],
      Field ''Tolls'' (TSlice Toll) [(''json'', ''tolls'')],
      Field ''TollSystems'' (TSlice TollSystem) [(''json'', ''tollSystems'')]])"

definition Route :: gotype where
  "Route = TNamed ''Route'' (TStruct
     [Field ''ID'' TString [(''json'', ''id'')],
      Field ''Sections'' (TSlice Section) [(''json'', ''sections'')]])"

definition RoutesResponse :: gotype where
  "RoutesResponse = TNamed ''RoutesResponse'' (TStruct
     [Field ''Routes'' (TSlice Route) [(''json'', ''routes'')],
      Field ''ErrorCodes'' ErrorCodes [(''json'', ''errorCodes'')]])"

definition MatrixResponse :: gotype where
  "MatrixResponse = TNamed ''MatrixResponse'' (TStruct
     [Field ''NumOrigins'' TInt [(''json'', ''numOrigins'')],
      Field ''NumDestinations'' TInt [(''json'', ''numDestinations'')],
      Field ''TravelTimes'' (TSlice TInt32) [(''json'', ''travelTimes'')],
      Field ''Distances'' (TSlice TInt32) [(''json'', ''distances'')],
      Field ''ErrorCodes'' ErrorCodes [(''json'', ''errorCodes'')]])"

definition CalculateMatrixResponse :: gotype where
  "CalculateMatrixResponse = TNamed ''CalculateMatrixResponse'' (TStruct
     [Field ''MatrixID'' TString [(''json'', ''matrixId'')],
      Field ''Matrix'' MatrixResponse [(''json'', ''matrix'')],
      Field ''RegionDefinition'' (TExternal ''RegionDefinition'') [(''json'', ''regionDefinition'')]])"

definition HereErrorResponse :: gotype where
  "HereErrorResponse = TNamed ''HereErrorResponse'' (TStruct
     [Field ''Title'' TString [(''json'', ''title'')],
      Field ''Status'' TInt [(''json'', ''status'')],
      Field ''Code'' TString [(''json'', ''code'')],
      Field ''Cause'' TString [(''json'', ''cause'')],
      Field ''Action'' TString [(''json'', ''action'')]])"

definition entities :: "gotype list" where
  "entities = [Summary, Place, Span, RoutePlace,
     Incident, NoticeDetail, Transport, Notice,
     TollSystem, TollCollectionLocation, Price, Fare,
     Toll, Section, Route, RoutesResponse,
     MatrixResponse, CalculateMatrixResponse, HereErrorResponse]"

section \<open>Encoding: \<open>json.Marshal\<close>\<close>

text \<open>
  A struct is written as an object with one member per field, in the order of the
  declaration and under the name \<open>json_name\<close> gives; a field tagged \<open>omitempty\<close> is left
  out when it is empty. A nil slice is written as null. The package declares no
  \<open>MarshalJSON\<close> method, so a named type is written as its underlying type. No field of
  an external type is tagged \<open>omitempty\<close>. The last equation of \<open>encode\<close> is for a value
  that is not of the type, which Go's typing excludes.
\<close>

definition isEmptyValue :: "'x env \<Rightarrow> 'x goval \<Rightarrow> bool" where
  "isEmptyValue env v =
     (case v of
        VInt n \<Rightarrow> n = 0
      | VString str \<Rightarrow> str = []
      | VSlice None \<Rightarrow> True
      | VSlice (Some xs) \<Rightarrow> xs = []
      | VStruct vals \<Rightarrow> False
      | VExt None \<Rightarrow> True
      | VExt (Some x) \<Rightarrow> float_IsZero env x)"

function (sequential)
  encode :: "'x env \<Rightarrow> gotype \<Rightarrow> 'x goval \<Rightarrow> error + json"
and
  encode_elems :: "'x env \<Rightarrow> gotype \<Rightarrow> 'x goval list \<Rightarrow> error + json list"
and
  encode_fields :: "'x env \<Rightarrow> field list \<Rightarrow> 'x goval list \<Rightarrow> error + (string \<times> json) list"
where
  "encode env (TNamed n u) v = encode env u v"
| "encode env (TExternal n) (VExt x) = ext_Marshal env n x"
| "encode env TInt (VInt n) = Inr (JInt n)"
| "encode env TInt32 (VInt n) = Inr (JInt n)"
| "encode env TFloat64 (VExt None) = Inr (JInt 0)"
| "encode env TFloat64 (VExt (Some x)) = FormatFloat env x"
| "encode env TString (VString str) = Inr (JString str)"
| "encode env (TSlice t) (VSlice None) = Inr JNull"
| "encode env (TSlice t) (VSlice (Some vs)) =
     (case encode_elems env t vs of Inl err \<Rightarrow> Inl err | Inr js \<Rightarrow> Inr (JArray js))"
| "encode env (TStruct fs) (VStruct vals) =
     (case encode_fields env fs vals of Inl err \<Rightarrow> Inl err | Inr kvs \<Rightarrow> Inr (JObject kvs))"
| "encode env t v = Inl (OtherError ''value not of the type'')"
| "encode_elems env t [] = Inr []"
| "encode_elems env t (v # vs) =
     (case encode env t v of
        Inl err \<Rightarrow> Inl err
      | Inr j \<Rightarrow>
          (case encode_elems env t vs of Inl err \<Rightarrow> Inl err | Inr js \<Rightarrow> Inr (j # js)))"
| "encode_fields env (f # fs) (v # vals) =
     (if json_ignored f \<or> (omitempty f \<and> isEmptyValue env v)
      then encode_fields env fs vals
      else (case encode env (ftype f) v of
              Inl err \<Rightarrow> Inl err
            | Inr j \<Rightarrow>
                (case encode_fields env fs vals of
                   Inl err \<Rightarrow> Inl err
                 | Inr kvs \<Rightarrow> Inr ((json_name f, j) # kvs))))"
| "encode_fields env fs vals = Inr []"
  by pat_completeness auto
termination
  apply (relation "inv_image (less_than <*lex*> less_than)
        (\<lambda>x. case x of
           Inl (env, t, v) \<Rightarrow> (size t, 0)
         | Inr (Inl (env, t, vs)) \<Rightarrow> (size t, Suc (length vs))
         | Inr (Inr (env, fs, vals)) \<Rightarrow> (size_list size fs, 0))")
  apply auto
  subgoal for f fs by (cases f) simp
  subgoal for env f fs v by (cases f) simp
  done

definition Marshal :: "'x env \<Rightarrow> gotype \<Rightarrow> 'x goval \<Rightarrow> error + json" where
  "Marshal env t v = encode env t v"

section \<open>The package \<open>routingv8\<close>: \<open>Routes\<close>\<close>

text \<open>
  \<open>Routes\<close> uses declarations that are outside the file at hand. They are parameters:
  the type of the transport mode with its \<open>String\<close> method, the type of a coordinate
  with its rendering by the verb \<open>%v\<close>, the type of a URL with \<open>Parse\<close>, the
  \<open>Encode\<close> method of \<open>url.Values\<close>, and the \<open>Error\<close> method of error values. A Go function
  that returns a value and an error is a function into a pair, the error \<open>None\<close> when nil.
\<close>

record 'co GeoWaypoint =
  Lat :: 'co
  Long :: 'co

record ('tm, 'co) RoutesRequest =
  TransportMode :: 'tm
  Origin :: "'co GeoWaypoint"
  Destination :: "'co GeoWaypoint"

type_synonym Values = "string \<rightharpoonup> string list"

record ('tm, 'co, 'u) lib =
  TransportMode_String :: "'tm \<Rightarrow> string"
  Sprint :: "'co \<Rightarrow> string"
  URL_Parse :: "'u \<Rightarrow> string \<Rightarrow> 'u \<times> error option"
  Values_Encode :: "Values \<Rightarrow> string"
  Error :: "error \<Rightarrow> string"

text \<open>
  Modelled from the spec: the constants \<open>invalid\<close> and \<open>unspecified\<close> are declared outside
  the file at hand; the spec names them as the tokens "invalid" and "unspecified".
\<close>

definition invalid :: string where
  "invalid = ''invalid''"

definition unspecified :: string where
  "unspecified = ''unspecified''"

definition MethodGet :: string where
  "MethodGet = ''GET''"

text \<open>
  The transport collaborator: \<open>NewRequest(ctx, u, method, query, body)\<close> and
  \<open>Do(r, out)\<close>, the latter returning what \<open>out\<close> points to after the call together with
  the error. The service holds the base URL and the client. Every call made to the
  collaborator is recorded, in order.
\<close>

record ('ctx, 'u, 'r, 'x) Client =
  NewRequest :: "'ctx \<Rightarrow> 'u \<Rightarrow> string \<Rightarrow> string \<Rightarrow> string option \<Rightarrow> 'r \<times> error option"
  Do :: "'r \<Rightarrow> 'x goval \<Rightarrow> 'x goval \<times> error option"

record ('ctx, 'u, 'r, 'x) RoutingService =
  URL :: 'u
  Client :: "('ctx, 'u, 'r, 'x) Client"

datatype ('ctx, 'u, 'r) call =
    NewRequest_call 'ctx 'u string string "string option"
  | Do_call 'r

text \<open>\<open>url.Values.Add\<close> appends the value to the values of the key.\<close>

definition Add :: "Values \<Rightarrow> string \<Rightarrow> string \<Rightarrow> Values" where
  "Add values key v = values(key \<mapsto> (case values key of None \<Rightarrow> [] | Some vs \<Rightarrow> vs) @ [v])"

text \<open>\<open>fmt.Sprintf("%v,%v", a, b)\<close> and \<open>fmt.Errorf\<close> with and without an operand.\<close>

definition Sprintf_v_v :: "('tm, 'co, 'u) lib \<Rightarrow> 'co \<Rightarrow> 'co \<Rightarrow> string" where
  "Sprintf_v_v l a b = Sprint l a @ '','' @ Sprint l b"

definition Errorf :: "string \<Rightarrow> error" where
  "Errorf msg = errorString msg"

definition Errorf_v :: "('tm, 'co, 'u) lib \<Rightarrow> string \<Rightarrow> error \<Rightarrow> error" where
  "Errorf_v l prefix err = errorString (prefix @ Error l err)"

text \<open>
  \<open>func (s *RoutingService) Routes(ctx, req) (*RoutesResponse, error)\<close>. The result is
  the pair the function returns (a nil response is \<open>None\<close>) and the calls it made.
\<close>

definition Routes ::
  "('tm, 'co, 'u) lib \<Rightarrow> ('ctx, 'u, 'r, 'x) RoutingService \<Rightarrow> 'ctx \<Rightarrow> ('tm, 'co) RoutesRequest \<Rightarrow>
   ('x goval option \<times> error option) \<times> ('ctx, 'u, 'r) call list" where
  "Routes l s ctx req =
     (let tm = TransportMode_String l (TransportMode req) in
      if tm = invalid \<or> tm = unspecified
      then ((None, Some (Errorf ''invalid transportmode'')), [])
      else
        (case URL_Parse l (URL s) ''routes'' of
           (u, Some err) \<Rightarrow> ((None, Some err), [])
         | (u, None) \<Rightarrow>
             (let values = Map.empty;
                  values = Add values ''return''
                    ''summary,polyline,elevation,actions,instructions,travelSummary,tolls,incidents'';
                  values = Add values ''transportMode'' tm;
                  values = Add values ''origin''
                    (Sprintf_v_v l (Lat (Origin req)) (Long (Origin req)));
                  values = Add values ''destination''
                    (Sprintf_v_v l (Lat (Destination req)) (Long (Destination req)));
                  values = Add values ''spans''
                    ''length,duration,maxSpeed,speedLimit,incidents,notices'';
                  values = Add values ''alternatives'' ''6'';
                  values = Add values ''currency'' ''EUR'';
                  query = Values_Encode l values;
                  c1 = NewRequest_call ctx u MethodGet query None
              in case NewRequest (Client s) ctx u MethodGet query None of
                   (r, Some err) \<Rightarrow>
                     ((None, Some (Errorf_v l ''unable to create get request: '' err)), [c1])
                 | (r, None) \<Rightarrow>
                     (case Do (Client s) r (zero RoutesResponse) of
                        (resp, Some err) \<Rightarrow> ((None, Some err), [c1, Do_call r])
                      | (resp, None) \<Rightarrow> ((Some resp, None), [c1, Do_call r])))))"

section \<open>Sample parameters\<close>

text \<open>
  Instances of the parameters, on which the functions above can be run. In \<open>plain_env\<close>
  a \<open>float64\<close> and a value of an external type are kept as the JSON they were read from.
  In \<open>plain_lib\<close> a transport mode is its token, a coordinate is its decimal rendering,
  a URL is a string, a reference is resolved by appending it to the base, and the query
  lists the keys in alphabetical order without escaping.
\<close>

definition plain_env :: "json env" where
  "plain_env =
     \<lparr> ParseFloat = (\<lambda>j. Some j),
       ext_Unmarshal = (\<lambda>n j d. case j of JNull \<Rightarrow> Inr (d, None) | _ \<Rightarrow> Inr (Some j, None)),
       FormatFloat = (\<lambda>x. Inr x),
       float_IsZero = (\<lambda>x. x = JInt 0),
       ext_Marshal = (\<lambda>n x. case x of None \<Rightarrow> Inr JNull | Some j \<Rightarrow> Inr j) \<rparr>"

definition plain_Encode :: "Values \<Rightarrow> string" where
  "plain_Encode values =
     concat (map (\<lambda>key. case values key of
                          None \<Rightarrow> []
                        | Some vs \<Rightarrow> concat (map (\<lambda>v. key @ ''='' @ v @ ''&'') vs))
       [''alternatives'', ''currency'', ''destination'', ''origin'', ''return'', ''spans'',
        ''transportMode''])"

definition plain_Error :: "error \<Rightarrow> string" where
  "plain_Error err =
     (case err of
        errorString msg \<Rightarrow> msg
      | SyntaxError msg \<Rightarrow> msg
      | UnmarshalTypeError v t \<Rightarrow> ''json: cannot unmarshal '' @ v @ '' into Go value''
      | OtherError msg \<Rightarrow> msg)"

definition plain_lib :: "(string, string, string) lib" where
  "plain_lib =
     \<lparr> TransportMode_String = (\<lambda>tm. tm),
       Sprint = (\<lambda>co. co),
       URL_Parse = (\<lambda>u ref. if u = [] then (u, Some (OtherError ''empty url''))
                             else (u @ ref, None)),
       Values_Encode = plain_Encode,
       Error = plain_Error \<rparr>"

text \<open>
  Modelled from the spec: the transport collaborator is outside the file at hand. The
  spec describes \<open>Do\<close> as performing the exchange and decoding the body into what \<open>out\<close>
  points to, or returning a transport or decode error. \<open>Do_body\<close> is a \<open>Do\<close> that receives
  the body \<open>b\<close>. \<open>body_Client\<close> creates the request (here: the URL with the query) unless
  the URL does not start with \<open>http\<close>, and receives \<open>b\<close>.
\<close>

definition Do_body :: "'x env \<Rightarrow> bytes \<Rightarrow> 'r \<Rightarrow> 'x goval \<Rightarrow> 'x goval \<times> error option" where
  "Do_body env b r out =
     (case Unmarshal env RoutesResponse b out of
        Inl err \<Rightarrow> (out, Some err)
      | Inr v \<Rightarrow> (v, None))"

definition body_Client :: "bytes \<Rightarrow> (unit, string, string, json) Client" where
  "body_Client b =
     \<lparr> NewRequest = (\<lambda>ctx u method query body.
          if take 4 u = ''http'' then (u @ ''?'' @ query, None)
          else ([], Some (OtherError ''unsupported protocol scheme''))),
       Do = Do_body plain_env b \<rparr>"

definition body_Service :: "string \<Rightarrow> bytes \<Rightarrow> (unit, string, string, json) RoutingService" where
  "body_Service base b = \<lparr> URL = base, Client = body_Client b \<rparr>"

definition plain_Request :: "string \<Rightarrow> (string, string) RoutesRequest" where
  "plain_Request tm =
     \<lparr> TransportMode = tm,
       Origin = \<lparr> Lat = ''1.5'', Long = ''2.5'' \<rparr>,
       Destination = \<lparr> Lat = ''3'', Long = ''4'' \<rparr> \<rparr>"

text \<open>The body \<open>{"routes":[{"id":"r1","sections":[]}],"errorCodes":[0]}\<close>.\<close>

definition r1_body :: json where
  "r1_body =
     JObject [(''routes'', JArray [JObject [(''id'', JString ''r1''), (''sections'', JArray [])]]),
              (''errorCodes'', JArray [JInt 0])]"

text \<open>Predicates and selectors used to state the properties.\<close>

definition int_or_null :: "json \<Rightarrow> bool" where
  "int_or_null j = (case j of JNull \<Rightarrow> True | JInt n \<Rightarrow> fits_int n | _ \<Rightarrow> False)"

definition struct_fields :: "gotype \<Rightarrow> field list" where
  "struct_fields t = (case t of TNamed n (TStruct fs) \<Rightarrow> fs | TStruct fs \<Rightarrow> fs | _ \<Rightarrow> [])"

definition type_name :: "gotype \<Rightarrow> string" where
  "type_name t = (case t of TNamed n u \<Rightarrow> n | _ \<Rightarrow> [])"

definition without_field :: "field list \<Rightarrow> nat \<Rightarrow> (string \<times> json) list \<Rightarrow> (string \<times> json) list" where
  "without_field fs i kvs = filter (\<lambda>kv. find_field fs (fst kv) \<noteq> Some i) kvs"

definition set_field :: "nat \<Rightarrow> 'x goval \<Rightarrow> 'x goval \<Rightarrow> 'x goval" where
  "set_field i x v = (case v of VStruct vals \<Rightarrow> VStruct (vals[i := x]) | _ \<Rightarrow> v)"

definition get_field :: "nat \<Rightarrow> 'x goval \<Rightarrow> 'x goval option" where
  "get_field i v =
     (case v of VStruct vals \<Rightarrow> (if i < length vals then Some (vals ! i) else None) | _ \<Rightarrow> None)"

section \<open>Properties of \<open>ErrorCodes.UnmarshalJSON\<close>\<close>

lemma foldl_snoc: "foldl (\<lambda>codes errorCode. codes @ [convert t errorCode]) acc xs = acc @ xs"
  by (induction xs arbitrary: acc) (simp_all add: convert_def)

lemma decode_elems_ints:
  "\<forall>n\<in>set S. fits_int n \<Longrightarrow>
   decode_elems um env TInt (map JInt S) (vs, s) = Inr (vs @ map VInt S, s)"
  by (induction S arbitrary: vs) simp_all

lemma literalStore_TInt:
  "literalStore env TInt x (d, s) = (d', s') \<Longrightarrow>
   (s' = None) = (s = None \<and> int_or_null x)"
  by (cases x) (auto simp: int_or_null_def saveError_def split: if_splits option.splits)

lemma decode_elems_TInt:
  "\<exists>vs' s'. decode_elems um env TInt xs (vs, s) = Inr (vs', s') \<and>
      ((s' = None) = (s = None \<and> (\<forall>x\<in>set xs. int_or_null x)))"
proof (induction xs arbitrary: vs s)
  case Nil
  then show ?case by simp
next
  case (Cons x xs)
  obtain d' s1 where l: "literalStore env TInt x (zero TInt, s) = (d', s1)"
    by (cases "literalStore env TInt x (zero TInt, s)") auto
  from literalStore_TInt[OF l] have s1: "(s1 = None) = (s = None \<and> int_or_null x)" .
  from Cons.IH[of "vs @ [d']" s1] obtain vs' s' where
    r: "decode_elems um env TInt xs (vs @ [d'], s1) = Inr (vs', s')"
       "(s' = None) = (s1 = None \<and> (\<forall>x\<in>set xs. int_or_null x))" by blast
  show ?case using l r s1 by auto
qed

lemma Unmarshal_ints_bad:
  assumes "\<exists>x\<in>set xs. \<not> int_or_null x"
  shows "\<exists>err. json_Unmarshal um env (TSlice TInt) (Valid (JArray xs)) d = Inl err"
proof -
  from decode_elems_TInt[of um env xs "[]" None] obtain vs' s' where
    r: "decode_elems um env TInt xs ([], None) = Inr (vs', s')"
       "(s' = None) = (\<forall>x\<in>set xs. int_or_null x)" by auto
  with assms obtain err where "s' = Some err" by (cases s') auto
  with r show ?thesis by (simp add: json_Unmarshal_def)
qed

lemma UnmarshalJSON_bad:
  assumes "\<exists>x\<in>set xs. \<not> int_or_null x"
  shows "\<exists>err. UnmarshalJSON env e (Valid (JArray xs)) = (e, Some err)"
  using Unmarshal_ints_bad[OF assms, of "\<lambda>n. None" env "VSlice (Some [])"]
  by (auto simp: UnmarshalJSON_def)

text \<open>
  C1, as stated: every sequence of integers decodes. It fails for an integer that does
  not fit Go's \<open>int\<close>: the array \<open>[9223372036854775808]\<close> is rejected with a type error.
\<close>

theorem UnmarshalJSON_rejects_big_integer:
  "UnmarshalJSON plain_env (VSlice None) (Valid (JArray (map JInt [9223372036854775808])))
   = (VSlice None, Some (UnmarshalTypeError ''number'' TInt))"
  by code_simp

text \<open>
  C1, amended: for every sequence \<open>S\<close> of integers that fit Go's \<open>int\<close> (64 bits), decoding
  the array of \<open>S\<close> with \<open>ErrorCodes.UnmarshalJSON\<close> succeeds, whatever the receiver held,
  and leaves in the receiver exactly the integers of \<open>S\<close>, in the same order and number;
  no value is rejected for not being one of the named codes.
\<close>

theorem UnmarshalJSON_ints:
  assumes "\<forall>n\<in>set S. fits_int n"
  shows "UnmarshalJSON env e (Valid (JArray (map JInt S))) = (VSlice (Some (map VInt S)), None)"
  using assms
  by (simp add: UnmarshalJSON_def json_Unmarshal_def decode_elems_ints foldl_snoc elems_def)

theorem UnmarshalJSON_ints_witness:
  "list_all fits_int [0, 2, 99, 7] \<and>
   UnmarshalJSON plain_env (VSlice None) (Valid (JArray (map JInt [0, 2, 99, 7])))
   = (VSlice (Some (map VInt [0, 2, 99, 7])), None)"
proof -
  have h: "\<forall>n\<in>set [0, 2, 99, 7]. fits_int n" by (simp add: fits_int_def)
  show ?thesis using h UnmarshalJSON_ints[OF h, of plain_env "VSlice None"] by simp
qed

text \<open>
  C10: \<open>ErrorCodes.UnmarshalJSON\<close> writes its receiver only on success: for every input
  \<open>b\<close> and every receiver, if the call returns an error the receiver is what it was.
\<close>

theorem UnmarshalJSON_failure_keeps_receiver:
  "snd (UnmarshalJSON env e b) \<noteq> None \<Longrightarrow> fst (UnmarshalJSON env e b) = e"
  by (auto simp: UnmarshalJSON_def Let_def split: sum.splits)

theorem UnmarshalJSON_failure_keeps_receiver_witness:
  "snd (UnmarshalJSON plain_env (VSlice (Some [VInt 1])) (Valid (JArray [JInt 3, JString ''a''])))
     \<noteq> None \<and>
   fst (UnmarshalJSON plain_env (VSlice (Some [VInt 1])) (Valid (JArray [JInt 3, JString ''a''])))
     = VSlice (Some [VInt 1])"
proof -
  have h: "snd (UnmarshalJSON plain_env (VSlice (Some [VInt 1]))
                 (Valid (JArray [JInt 3, JString ''a'']))) \<noteq> None"
    by code_simp
  show ?thesis using h UnmarshalJSON_failure_keeps_receiver[OF h] by simp
qed

lemma decode_fields_abort:
  assumes "(key, v) \<in> set kvs" "find_field fs key = Some i" "i < length vals" "i < length fs"
    and "\<And>d s. \<exists>err. decode um env (ftype (fs ! i)) v (d, s) = Inl err"
  shows "\<exists>err. decode_fields um env fs kvs (vals, s) = Inl err"
  using assms(1,3)
proof (induction kvs arbitrary: vals s)
  case Nil
  then show ?case by simp
next
  case (Cons kv kvs)
  obtain k w where kv: "kv = (k, w)" by (cases kv)
  show ?case
  proof (cases "find_field fs k")
    case None
    with Cons kv assms(2) show ?thesis by auto
  next
    case (Some j)
    show ?thesis
    proof (cases "j < length vals \<and> j < length fs")
      case False
      with Cons kv assms(2,4) Some show ?thesis by auto
    next
      case True
      show ?thesis
      proof (cases "decode um env (ftype (fs ! j)) w (vals ! j, s)")
        case (Inl err)
        with kv Some True show ?thesis by simp
      next
        case (Inr r)
        obtain v' s' where r: "r = (v', s')" by (cases r)
        have ne: "kv \<noteq> (key, v)"
        proof
          assume "kv = (key, v)"
          with kv Some assms(2) have "j = i" "w = v" by auto
          with Inr assms(5)[of "vals ! i" s] show False by auto
        qed
        with Cons.prems have "(key, v) \<in> set kvs" by auto
        from Cons.IH[OF this, of "vals[j := v']" s'] Cons.prems(2)
        obtain err where "decode_fields um env fs kvs (vals[j := v'], s') = Inl err" by auto
        with kv Some True Inr r show ?thesis by simp
      qed
    qed
  qed
qed

lemma enclosing_fails:
  assumes bad: "\<exists>x\<in>set xs. \<not> int_or_null x"
    and mem: "(key, JArray xs) \<in> set kvs"
    and ff: "find_field fs key = Some i" "i < length fs" "ftype (fs ! i) = ErrorCodes"
    and n: "n \<noteq> ''ErrorCodes''"
  shows "isl (Unmarshal env (TNamed n (TStruct fs)) (Valid (JObject kvs)) (zero (TNamed n (TStruct fs))))"
proof -
  have ab: "\<exists>err. decode (Unmarshalers env) env (ftype (fs ! i)) (JArray xs) (d, s) = Inl err" for d s
    using UnmarshalJSON_bad[OF bad, of env d]
    by (auto simp: ff ErrorCodes_def Unmarshalers_def)
  from decode_fields_abort[OF mem ff(1) _ ff(2) ab, of "map (\<lambda>f. zero (ftype f)) fs" None] ff(2)
  obtain err where "decode_fields (Unmarshalers env) env fs kvs (map (\<lambda>f. zero (ftype f)) fs, None) = Inl err"
    by auto
  with n show ?thesis
    by (simp add: Unmarshal_def json_Unmarshal_def Unmarshalers_def)
qed

lemma errorCodes_RoutesResponse:
  "find_field (struct_fields RoutesResponse) ''errorCodes'' = Some 1"
  by code_simp

lemma errorCodes_MatrixResponse:
  "find_field (struct_fields MatrixResponse) ''errorCodes'' = Some 4"
  by code_simp

text \<open>
  C2, as stated: any element that is not an integer makes the decode fail. It fails for
  a null element: \<open>[null]\<close> decodes without error, and the element reads as 0.
\<close>

theorem UnmarshalJSON_accepts_null_element:
  "UnmarshalJSON plain_env (VSlice None) (Valid (JArray [JNull])) = (VSlice (Some [VInt 0]), None)"
  by code_simp

text \<open>
  C2, amended: if the array contains an element that is neither null nor an integer
  literal that fits \<open>int\<close> (a string such as in \<open>["a"]\<close>, a boolean, a fraction, an
  array, an object, an integer out of range), then \<open>ErrorCodes.UnmarshalJSON\<close> returns the very
  error \<open>json.Unmarshal\<close> gave for the integer array and leaves its receiver alone, and
  the decode of an enclosing \<open>RoutesResponse\<close> or \<open>MatrixResponse\<close> whose \<open>errorCodes\<close> member is
  that array fails as a whole.
\<close>

theorem offending_element_fails:
  assumes "\<exists>x\<in>set xs. \<not> int_or_null x"
  shows "(\<exists>err. json_Unmarshal (\<lambda>n. None) env (TSlice TInt) (Valid (JArray xs)) (VSlice (Some [])) = Inl err
            \<and> UnmarshalJSON env e (Valid (JArray xs)) = (e, Some err))
       \<and> (\<forall>T key kvs. (T = RoutesResponse \<or> T = MatrixResponse)
             \<and> find_field (struct_fields T) key = find_field (struct_fields T) ''errorCodes''
             \<and> (key, JArray xs) \<in> set kvs
           \<longrightarrow> isl (Unmarshal env T (Valid (JObject kvs)) (zero T)))"
proof (intro conjI allI impI)
  from Unmarshal_ints_bad[OF assms, of "\<lambda>n. None" env "VSlice (Some [])"]
  show "\<exists>err. json_Unmarshal (\<lambda>n. None) env (TSlice TInt) (Valid (JArray xs)) (VSlice (Some [])) = Inl err
            \<and> UnmarshalJSON env e (Valid (JArray xs)) = (e, Some err)"
    by (auto simp: UnmarshalJSON_def)
next
  fix T key kvs
  assume a: "(T = RoutesResponse \<or> T = MatrixResponse)
             \<and> find_field (struct_fields T) key = find_field (struct_fields T) ''errorCodes''
             \<and> (key, JArray xs) \<in> set kvs"
  then consider (R) "T = RoutesResponse" | (M) "T = MatrixResponse" by blast
  then show "isl (Unmarshal env T (Valid (JObject kvs)) (zero T))"
  proof cases
    case R
    with a have ff: "find_field (struct_fields RoutesResponse) key = Some 1"
      by (simp add: errorCodes_RoutesResponse)
    show ?thesis
      unfolding R RoutesResponse_def
      by (rule enclosing_fails[OF assms, where key = key and i = 1])
         (use a ff in \<open>simp_all add: RoutesResponse_def struct_fields_def\<close>)
  next
    case M
    with a have ff: "find_field (struct_fields MatrixResponse) key = Some 4"
      by (simp add: errorCodes_MatrixResponse)
    show ?thesis
      unfolding M MatrixResponse_def
      by (rule enclosing_fails[OF assms, where key = key and i = 4])
         (use a ff in \<open>simp_all add: MatrixResponse_def struct_fields_def\<close>)
  qed
qed

theorem offending_element_fails_witness:
  "list_ex (\<lambda>x. \<not> int_or_null x) [JString ''a''] \<and>
   (\<exists>err. json_Unmarshal (\<lambda>n. None) plain_env (TSlice TInt) (Valid (JArray [JString ''a'']))
             (VSlice (Some [])) = Inl err
         \<and> UnmarshalJSON plain_env (VSlice None) (Valid (JArray [JString ''a'']))
             = (VSlice None, Some err)) \<and>
   isl (Unmarshal plain_env RoutesResponse
          (Valid (JObject [(''routes'', JArray []), (''errorCodes'', JArray [JString ''a''])]))
          (zero RoutesResponse))"
proof -
  have h: "\<exists>x\<in>set [JString ''a'']. \<not> int_or_null x" by (simp add: int_or_null_def)
  note t = offending_element_fails[OF h, of plain_env "VSlice None"]
  from t have a: "\<exists>err. json_Unmarshal (\<lambda>n. None) plain_env (TSlice TInt) (Valid (JArray [JString ''a'']))
             (VSlice (Some [])) = Inl err
         \<and> UnmarshalJSON plain_env (VSlice None) (Valid (JArray [JString ''a'']))
             = (VSlice None, Some err)" by blast
  from t have "(RoutesResponse = RoutesResponse \<or> RoutesResponse = MatrixResponse)
             \<and> find_field (struct_fields RoutesResponse) ''errorCodes'' = find_field (struct_fields RoutesResponse) ''errorCodes''
             \<and> (''errorCodes'', JArray [JString ''a'']) \<in> set [(''routes'', JArray []), (''errorCodes'', JArray [JString ''a''])]
           \<longrightarrow> isl (Unmarshal plain_env RoutesResponse (Valid (JObject [(''routes'', JArray []), (''errorCodes'', JArray [JString ''a''])])) (zero RoutesResponse))"
    by blast
  then have b: "isl (Unmarshal plain_env RoutesResponse (Valid (JObject [(''routes'', JArray []), (''errorCodes'', JArray [JString ''a''])])) (zero RoutesResponse))"
    by simp
  show ?thesis using h a b by simp
qed


section \<open>Properties of structural decoding\<close>

lemma literalStore_sticky:
  "snd (literalStore env t j (d, Some e)) = Some e"
  by (cases "(env, t, j, (d, Some e))" rule: literalStore.cases)
     (auto simp: saveError_def split: option.splits if_splits)

lemma decode_sticky:
  "decode um env t j st = Inr r \<Longrightarrow> snd st \<noteq> None \<Longrightarrow> snd r \<noteq> None"
  "decode_elems um env t js st1 = Inr r1 \<Longrightarrow> snd st1 \<noteq> None \<Longrightarrow> snd r1 \<noteq> None"
  "decode_fields um env fs kvs st2 = Inr r2 \<Longrightarrow> snd st2 \<noteq> None \<Longrightarrow> snd r2 \<noteq> None"
proof (induction um env t j st and um env t js st1 and um env fs kvs st2
       arbitrary: r and r1 and r2 rule: decode_decode_elems_decode_fields.induct)
qed (auto simp: saveError_def literalStore_sticky
          split: option.splits sum.splits prod.splits if_splits goval.splits)


lemma decode_fields_length:
  "decode_fields um env fs kvs (vals, s) = Inr (vals', s') \<Longrightarrow> length vals' = length vals"
proof (induction kvs arbitrary: vals s)
  case Nil
  then show ?case by simp
next
  case (Cons kv kvs)
  obtain k w where kv: "kv = (k, w)" by (cases kv)
  from Cons.prems Cons.IH show ?case
    by (auto simp: kv split: option.splits if_splits sum.splits prod.splits)
qed

lemma decode_fields_without:
  assumes "decode_fields um env fs kvs (vals, None) = Inr (vals', None)"
  shows "decode_fields um env fs (without_field fs i kvs) (vals[i := z], None)
         = Inr (vals'[i := z], None)"
  using assms
proof (induction kvs arbitrary: vals)
  case Nil
  then show ?case by (simp add: without_field_def)
next
  case (Cons kv kvs)
  obtain k w where kv: "kv = (k, w)" by (cases kv)
  show ?case
  proof (cases "find_field fs k")
    case None
    with Cons kv show ?thesis by (simp add: without_field_def)
  next
    case (Some j)
    show ?thesis
    proof (cases "j < length vals \<and> j < length fs")
      case False
      with Cons kv Some show ?thesis by (auto simp: without_field_def)
    next
      case True
      from Cons.prems kv Some True obtain v' s1 where
        d: "decode um env (ftype (fs ! j)) w (vals ! j, None) = Inr (v', s1)"
        and rest: "decode_fields um env fs kvs (vals[j := v'], s1) = Inr (vals', None)"
        by (auto split: sum.splits prod.splits)
      have s1: "s1 = None"
        using decode_sticky(3)[OF rest] by (cases s1) auto
      note ih = Cons.IH[OF rest[unfolded s1]]
      show ?thesis
      proof (cases "j = i")
        case True
        with ih kv Some show ?thesis by (simp add: without_field_def)
      next
        case False
        with ih kv Some True d s1 show ?thesis
          by (simp add: without_field_def list_update_swap)
      qed
    qed
  qed
qed

lemma Unmarshal_struct:
  assumes "Unmarshalers env n = None"
  shows "Unmarshal env (TNamed n (TStruct fs)) (Valid (JObject kvs)) (VStruct vals) =
     (case decode_fields (Unmarshalers env) env fs kvs (vals, None) of
        Inl err \<Rightarrow> Inl err
      | Inr (vals', Some err) \<Rightarrow> Inl err
      | Inr (vals', None) \<Rightarrow> Inr (VStruct vals'))"
  using assms
  by (auto simp: Unmarshal_def json_Unmarshal_def split: sum.splits option.splits)

lemma Unmarshal_without:
  assumes n: "Unmarshalers env n = None"
    and ok: "Unmarshal env (TNamed n (TStruct fs)) (Valid (JObject kvs)) (VStruct vals) = Inr v"
  shows "Unmarshal env (TNamed n (TStruct fs)) (Valid (JObject (without_field fs i kvs)))
           (VStruct (vals[i := z])) = Inr (set_field i z v)"
proof -
  from ok obtain vals' where
    d: "decode_fields (Unmarshalers env) env fs kvs (vals, None) = Inr (vals', None)"
    and v: "v = VStruct vals'"
    by (auto simp: Unmarshal_struct[OF n] split: sum.splits option.splits)
  from decode_fields_without[OF d, of i z] v show ?thesis
    by (simp add: Unmarshal_struct[OF n] set_field_def)
qed

lemma entities_shape:
  assumes "T \<in> set entities"
  shows "\<exists>n fs. T = TNamed n (TStruct fs) \<and> n \<noteq> ''ErrorCodes''"
  using assms
  unfolding entities_def Summary_def Place_def Span_def RoutePlace_def Incident_def
    NoticeDetail_def Transport_def Notice_def TollSystem_def TollCollectionLocation_def
    Price_def Fare_def Toll_def Section_def Route_def RoutesResponse_def MatrixResponse_def
    CalculateMatrixResponse_def HereErrorResponse_def
  by auto


lemma index_where_less: "index_where P xs = Some i \<Longrightarrow> i < length xs"
  by (induction xs arbitrary: i) (auto split: if_splits)

lemma find_field_less: "find_field fs key = Some i \<Longrightarrow> i < length fs"
  by (auto simp: find_field_def dest: index_where_less split: option.splits)

lemma without_field_id:
  "\<forall>kv\<in>set kvs. find_field fs (fst kv) \<noteq> Some i \<Longrightarrow> without_field fs i kvs = kvs"
  by (simp add: without_field_def)

lemma Unmarshal_member:
  assumes n: "Unmarshalers env n = None" and f: "find_field fs key = Some i"
  shows "Unmarshal env (TNamed n (TStruct fs)) (Valid (JObject [(key, j)])) (zero (TNamed n (TStruct fs)))
     = (case Unmarshal env (ftype (fs ! i)) (Valid j) (zero (ftype (fs ! i))) of
          Inl err \<Rightarrow> Inl err
        | Inr x \<Rightarrow> Inr (set_field i x (zero (TNamed n (TStruct fs)))))"
  using find_field_less[OF f]
  by (simp add: Unmarshal_struct[OF n] f)
     (auto simp: Unmarshal_def json_Unmarshal_def set_field_def split: sum.splits option.splits)

text \<open>
  C9: every entity other than \<open>ErrorCodes\<close> is decoded structurally: it has no decoding
  method of its own, and a member of the wire object is decoded as a value of the type
  of the field it names, into that field. A wire object in which a named field is absent
  still decodes: the empty object decodes to the zero value; taking the members of a
  field out of an object that decodes leaves an object that decodes, to the same value
  but for the zero value in that field; and a field of which the object has no member
  is at its zero value (the empty string, 0, the nil slice) in the result.
\<close>

theorem absent_field_stays_zero:
  assumes "T \<in> set entities"
  shows "Unmarshalers env (type_name T) = None
    \<and> Unmarshal env T (Valid (JObject [])) (zero T) = Inr (zero T)
    \<and> (\<forall>key j i. find_field (struct_fields T) key = Some i \<longrightarrow>
          Unmarshal env T (Valid (JObject [(key, j)])) (zero T)
          = (case Unmarshal env (ftype (struct_fields T ! i)) (Valid j)
                    (zero (ftype (struct_fields T ! i))) of
               Inl err \<Rightarrow> Inl err
             | Inr x \<Rightarrow> Inr (set_field i x (zero T))))
    \<and> (\<forall>i kvs v. i < length (struct_fields T)
            \<and> Unmarshal env T (Valid (JObject kvs)) (zero T) = Inr v \<longrightarrow>
          Unmarshal env T (Valid (JObject (without_field (struct_fields T) i kvs))) (zero T)
          = Inr (set_field i (zero (ftype (struct_fields T ! i))) v))
    \<and> (\<forall>i kvs v. i < length (struct_fields T)
            \<and> (\<forall>kv\<in>set kvs. find_field (struct_fields T) (fst kv) \<noteq> Some i)
            \<and> Unmarshal env T (Valid (JObject kvs)) (zero T) = Inr v \<longrightarrow>
          get_field i v = Some (zero (ftype (struct_fields T ! i))))"
proof -
  from entities_shape[OF assms] obtain n fs where
    T: "T = TNamed n (TStruct fs)" and ne: "n \<noteq> ''ErrorCodes''" by blast
  have n: "Unmarshalers env n = None" using ne by (simp add: Unmarshalers_def)
  have sf: "struct_fields T = fs" by (simp add: T struct_fields_def)
  have z: "zero T = VStruct (map (\<lambda>f. zero (ftype f)) fs)" by (simp add: T)
  have upd: "(map (\<lambda>f. zero (ftype f)) fs)[i := zero (ftype (fs ! i))] = map (\<lambda>f. zero (ftype f)) fs"
    if "i < length fs" for i
    using that by (simp add: list_eq_iff_nth_eq nth_list_update)
  have rem: "Unmarshal env T (Valid (JObject (without_field fs i kvs))) (zero T)
          = Inr (set_field i (zero (ftype (fs ! i))) v)"
    if "i < length fs" "Unmarshal env T (Valid (JObject kvs)) (zero T) = Inr v" for i kvs v
  proof -
    from that(2) have "Unmarshal env (TNamed n (TStruct fs)) (Valid (JObject kvs))
        (VStruct (map (\<lambda>f. zero (ftype f)) fs)) = Inr v" by (simp add: T)
    from Unmarshal_without[OF n this, of i "zero (ftype (fs ! i))", unfolded upd[OF that(1)]]
    show ?thesis by (simp add: T)
  qed
  have c1: "Unmarshalers env (type_name T) = None" using n by (simp add: T type_name_def)
  have c2: "Unmarshal env T (Valid (JObject [])) (zero T) = Inr (zero T)"
    by (simp add: T Unmarshal_struct[OF n])
  have c3: "Unmarshal env T (Valid (JObject [(key, j)])) (zero T)
          = (case Unmarshal env (ftype (fs ! i)) (Valid j) (zero (ftype (fs ! i))) of
               Inl err \<Rightarrow> Inl err
             | Inr x \<Rightarrow> Inr (set_field i x (zero T)))"
    if "find_field fs key = Some i" for key j i
    unfolding T by (rule Unmarshal_member[OF n that])
  have c5: "get_field i v = Some (zero (ftype (fs ! i)))"
    if a: "i < length fs" "\<forall>kv\<in>set kvs. find_field fs (fst kv) \<noteq> Some i"
      "Unmarshal env T (Valid (JObject kvs)) (zero T) = Inr v" for i kvs v
  proof -
    from a(3) obtain vals' where
      d: "decode_fields (Unmarshalers env) env fs kvs (map (\<lambda>f. zero (ftype f)) fs, None) = Inr (vals', None)"
      and v: "v = VStruct vals'"
      by (auto simp: T Unmarshal_struct[OF n] split: sum.splits option.splits)
    from decode_fields_length[OF d] have len: "length vals' = length fs" by simp
    from rem[OF a(1,3)] without_field_id[OF a(2)] a(3)
    have "set_field i (zero (ftype (fs ! i))) v = v" by simp
    then have "vals'[i := zero (ftype (fs ! i))] = vals'" by (simp add: v set_field_def)
    then have "vals' ! i = zero (ftype (fs ! i))"
      using a(1) len by (metis nth_list_update_eq)
    then show ?thesis using a(1) len by (simp add: v get_field_def)
  qed
  show ?thesis
    unfolding sf using c1 c2 c3 rem c5 by blast
qed

theorem absent_field_stays_zero_witness:
  "MatrixResponse \<in> set entities \<and>
   Unmarshalers plain_env (type_name MatrixResponse) = None \<and>
   Unmarshal plain_env MatrixResponse (Valid (JObject [])) (zero MatrixResponse)
     = Inr (zero MatrixResponse) \<and>
   2 < length (struct_fields MatrixResponse) \<and>
   Unmarshal plain_env MatrixResponse
     (Valid (JObject [(''numOrigins'', JInt 1), (''travelTimes'', JArray [JInt 5]),
                      (''numDestinations'', JInt 1)]))
     (zero MatrixResponse)
     = Inr (VStruct [VInt 1, VInt 1, VSlice (Some [VInt 5]), VSlice None, VSlice None]) \<and>
   Unmarshal plain_env MatrixResponse
     (Valid (JObject (without_field (struct_fields MatrixResponse) 2
        [(''numOrigins'', JInt 1), (''travelTimes'', JArray [JInt 5]),
         (''numDestinations'', JInt 1)])))
     (zero MatrixResponse)
     = Inr (set_field 2 (zero (ftype (struct_fields MatrixResponse ! 2)))
             (VStruct [VInt 1, VInt 1, VSlice (Some [VInt 5]), VSlice None, VSlice None]))"
proof -
  have m: "MatrixResponse \<in> set entities" by (simp add: entities_def)
  have i: "2 < length (struct_fields MatrixResponse)" by code_simp
  have ok: "Unmarshal plain_env MatrixResponse
     (Valid (JObject [(''numOrigins'', JInt 1), (''travelTimes'', JArray [JInt 5]),
                      (''numDestinations'', JInt 1)]))
     (zero MatrixResponse)
     = Inr (VStruct [VInt 1, VInt 1, VSlice (Some [VInt 5]), VSlice None, VSlice None])"
    by code_simp
  note t = absent_field_stays_zero[OF m, of plain_env]
  from t have a: "Unmarshalers plain_env (type_name MatrixResponse) = None" by blast
  from t have b: "Unmarshal plain_env MatrixResponse (Valid (JObject [])) (zero MatrixResponse)
     = Inr (zero MatrixResponse)" by blast
  from t i ok have c: "Unmarshal plain_env MatrixResponse
     (Valid (JObject (without_field (struct_fields MatrixResponse) 2
        [(''numOrigins'', JInt 1), (''travelTimes'', JArray [JInt 5]),
         (''numDestinations'', JInt 1)])))
     (zero MatrixResponse)
     = Inr (set_field 2 (zero (ftype (struct_fields MatrixResponse ! 2)))
             (VStruct [VInt 1, VInt 1, VSlice (Some [VInt 5]), VSlice None, VSlice None]))"
    by blast
  show ?thesis using m a b i ok c by blast
qed

section \<open>Properties of \<open>MatrixResponse\<close>\<close>

lemma decode_elems_int32s:
  "\<forall>n\<in>set S. fits_int32 n \<Longrightarrow>
   decode_elems um env TInt32 (map JInt S) (vs, s) = Inr (vs @ map VInt S, s)"
  by (induction S arbitrary: vs) simp_all

lemma MatrixResponse_fields:
  "find_field (struct_fields MatrixResponse) ''numOrigins'' = Some 0"
  "find_field (struct_fields MatrixResponse) ''numDestinations'' = Some 1"
  "find_field (struct_fields MatrixResponse) ''travelTimes'' = Some 2"
  by code_simp+

text \<open>
  C5, as stated: a present \<open>travelTimes\<close> array has \<open>numOrigins\<close> times \<open>numDestinations\<close>
  elements in every decoded \<open>MatrixResponse\<close>. It fails: with \<open>numOrigins\<close> 2 and
  \<open>numDestinations\<close> 3, an array of one element is decoded as it is.
\<close>

theorem MatrixResponse_length_unchecked:
  "Unmarshal plain_env MatrixResponse
     (Valid (JObject [(''numOrigins'', JInt 2), (''numDestinations'', JInt 3),
                      (''travelTimes'', JArray [JInt 1])]))
     (zero MatrixResponse)
   = Inr (VStruct [VInt 2, VInt 3, VSlice (Some [VInt 1]), VSlice None, VSlice None])
   \<and> length [VInt 1 :: json goval] \<noteq> 2 * 3"
  by code_simp

text \<open>
  C5, amended: decoding a \<open>MatrixResponse\<close> checks no length. A present \<open>travelTimes\<close>
  array of 32-bit integers is decoded element for element, in order, whatever
  \<open>numOrigins\<close> and \<open>numDestinations\<close> are; when \<open>travelTimes\<close> is absent decoding succeeds
  and \<open>TravelTimes\<close> is the nil slice.
\<close>

theorem MatrixResponse_travelTimes_as_sent:
  assumes "fits_int n" "fits_int m" "\<forall>t\<in>set ts. fits_int32 t"
  shows "Unmarshal env MatrixResponse
           (Valid (JObject [(''numOrigins'', JInt n), (''numDestinations'', JInt m),
                            (''travelTimes'', JArray (map JInt ts))]))
           (zero MatrixResponse)
         = Inr (VStruct [VInt n, VInt m, VSlice (Some (map VInt ts)), VSlice None, VSlice None])
       \<and> Unmarshal env MatrixResponse
           (Valid (JObject [(''numOrigins'', JInt n), (''numDestinations'', JInt m)]))
           (zero MatrixResponse)
         = Inr (VStruct [VInt n, VInt m, VSlice None, VSlice None, VSlice None])"
proof -
  have n: "Unmarshalers env ''MatrixResponse'' = None" by (simp add: Unmarshalers_def)
  have T: "MatrixResponse = TNamed ''MatrixResponse'' (TStruct (struct_fields MatrixResponse))"
    by (simp add: MatrixResponse_def struct_fields_def)
  have z: "zero (TNamed ''MatrixResponse'' (TStruct (struct_fields MatrixResponse)))
      = (VStruct [VInt 0, VInt 0, VSlice None, VSlice None, VSlice None] :: 'a goval)"
    by (simp add: MatrixResponse_def struct_fields_def ErrorCodes_def)
  have ft: "ftype (struct_fields MatrixResponse ! 0) = TInt"
    "ftype (struct_fields MatrixResponse ! Suc 0) = TInt"
    "ftype (struct_fields MatrixResponse ! 2) = TSlice TInt32"
    "length (struct_fields MatrixResponse) = 5"
    by (simp_all add: MatrixResponse_def struct_fields_def)
  show ?thesis
    apply (subst (1 2 3 4) T)
    unfolding z Unmarshal_struct[OF n]
    using assms by (simp add: MatrixResponse_fields ft decode_elems_int32s)
qed


theorem MatrixResponse_travelTimes_as_sent_witness:
  "fits_int 2 \<and> fits_int 3 \<and> list_all fits_int32 [10, 20, 30, 40, 50, 60] \<and>
   Unmarshal plain_env MatrixResponse
     (Valid (JObject [(''numOrigins'', JInt 2), (''numDestinations'', JInt 3),
                      (''travelTimes'', JArray (map JInt [10, 20, 30, 40, 50, 60]))]))
     (zero MatrixResponse)
   = Inr (VStruct [VInt 2, VInt 3, VSlice (Some (map VInt [10, 20, 30, 40, 50, 60])),
                   VSlice None, VSlice None]) \<and>
   Unmarshal plain_env MatrixResponse
     (Valid (JObject [(''numOrigins'', JInt 2), (''numDestinations'', JInt 3)]))
     (zero MatrixResponse)
   = Inr (VStruct [VInt 2, VInt 3, VSlice None, VSlice None, VSlice None])"
proof -
  have h: "fits_int 2" "fits_int 3" "\<forall>t\<in>set [10, 20, 30, 40, 50, 60]. fits_int32 t"
    by (simp_all add: fits_int_def fits_int32_def)
  show ?thesis
    using h MatrixResponse_travelTimes_as_sent[OF h, of plain_env] by simp
qed

section \<open>Properties of \<open>Routes\<close>\<close>

text \<open>
  C3: for every request whose transport mode resolves to the token \<open>invalid\<close> or the token
  \<open>unspecified\<close>, \<open>Routes\<close> returns a nil response with the validation error, and makes
  no call to the transport collaborator: neither \<open>NewRequest\<close> nor \<open>Do\<close>.
\<close>

theorem Routes_invalid_mode:
  assumes "TransportMode_String l (TransportMode req) = invalid
         \<or> TransportMode_String l (TransportMode req) = unspecified"
  shows "Routes l s ctx req = ((None, Some (Errorf ''invalid transportmode'')), [])"
  using assms by (auto simp: Routes_def Let_def)

theorem Routes_invalid_mode_witness:
  "TransportMode_String plain_lib (TransportMode (plain_Request ''unspecified'')) = unspecified \<and>
   Routes plain_lib (body_Service ''https://router.example/v8/'' (Valid r1_body)) ()
     (plain_Request ''unspecified'')
   = ((None, Some (Errorf ''invalid transportmode'')), [])"
proof -
  have h: "TransportMode_String plain_lib (TransportMode (plain_Request ''unspecified'')) = unspecified"
    by (simp add: plain_lib_def plain_Request_def unspecified_def)
  from h have h': "TransportMode_String plain_lib (TransportMode (plain_Request ''unspecified'')) = invalid
     \<or> TransportMode_String plain_lib (TransportMode (plain_Request ''unspecified'')) = unspecified"
    by simp
  show ?thesis using h Routes_invalid_mode[OF h'] by simp
qed

text \<open>
  C4: for every request with a valid transport mode (and a base URL that parses), the
  first call \<open>Routes\<close> makes is \<open>NewRequest\<close> with the method GET and the encoding of
  exactly this value set: \<open>return\<close> and \<open>spans\<close> with their fixed attribute lists,
  \<open>transportMode\<close> with the validated token, \<open>origin\<close> and \<open>destination\<close> with latitude and
  longitude as \<open>%v\<close> renders them, joined by a comma, \<open>alternatives\<close> 6 and \<open>currency\<close> EUR.
\<close>

theorem Routes_query:
  assumes "tm = TransportMode_String l (TransportMode req)" "tm \<noteq> invalid" "tm \<noteq> unspecified"
    and "URL_Parse l (URL s) ''routes'' = (u, None)"
  shows "\<exists>rest. snd (Routes l s ctx req) =
     NewRequest_call ctx u MethodGet
       (Values_Encode l
          [''return'' \<mapsto>
             [''summary,polyline,elevation,actions,instructions,travelSummary,tolls,incidents''],
           ''transportMode'' \<mapsto> [tm],
           ''origin'' \<mapsto> [Sprint l (Lat (Origin req)) @ '','' @ Sprint l (Long (Origin req))],
           ''destination'' \<mapsto>
             [Sprint l (Lat (Destination req)) @ '','' @ Sprint l (Long (Destination req))],
           ''spans'' \<mapsto> [''length,duration,maxSpeed,speedLimit,incidents,notices''],
           ''alternatives'' \<mapsto> [''6''],
           ''currency'' \<mapsto> [''EUR'']])
       None # rest"
  using assms
  by (auto simp: Routes_def Let_def Add_def Sprintf_v_v_def split: prod.splits option.splits)


theorem Routes_query_witness:
  "''car'' = TransportMode_String plain_lib (TransportMode (plain_Request ''car'')) \<and>
   ''car'' \<noteq> invalid \<and> ''car'' \<noteq> unspecified \<and>
   URL_Parse plain_lib (URL (body_Service ''https://router.example/v8/'' (Valid r1_body))) ''routes''
     = (''https://router.example/v8/routes'', None) \<and>
   (\<exists>rest. snd (Routes plain_lib (body_Service ''https://router.example/v8/'' (Valid r1_body)) ()
                    (plain_Request ''car'')) =
     NewRequest_call () ''https://router.example/v8/routes'' MethodGet
       (Values_Encode plain_lib
          [''return'' \<mapsto>
             [''summary,polyline,elevation,actions,instructions,travelSummary,tolls,incidents''],
           ''transportMode'' \<mapsto> [''car''],
           ''origin'' \<mapsto> [''1.5,2.5''],
           ''destination'' \<mapsto> [''3,4''],
           ''spans'' \<mapsto> [''length,duration,maxSpeed,speedLimit,incidents,notices''],
           ''alternatives'' \<mapsto> [''6''],
           ''currency'' \<mapsto> [''EUR'']])
       None # rest)"
proof -
  have h: "''car'' = TransportMode_String plain_lib (TransportMode (plain_Request ''car''))"
    "''car'' \<noteq> invalid" "''car'' \<noteq> unspecified"
    "URL_Parse plain_lib (URL (body_Service ''https://router.example/v8/'' (Valid r1_body))) ''routes''
     = (''https://router.example/v8/routes'', None)"
    by (simp_all add: plain_lib_def plain_Request_def invalid_def unspecified_def body_Service_def)
  have r: "Sprint plain_lib (Lat (Origin (plain_Request ''car''))) = ''1.5''"
    "Sprint plain_lib (Long (Origin (plain_Request ''car''))) = ''2.5''"
    "Sprint plain_lib (Lat (Destination (plain_Request ''car''))) = ''3''"
    "Sprint plain_lib (Long (Destination (plain_Request ''car''))) = ''4''"
    by (simp_all add: plain_lib_def plain_Request_def)
  from Routes_query[OF h, of "()"] h show ?thesis
    unfolding r by simp
qed

text \<open>The body of the end-to-end scenario, decoded.\<close>

lemma UnmarshalJSON_0:
  "UnmarshalJSON env e (Valid (JArray [JInt 0])) = (VSlice (Some [VInt 0]), None)"
  by (simp add: UnmarshalJSON_def json_Unmarshal_def elems_def convert_def fits_int_def)

lemma r1_fields:
  "find_field (struct_fields RoutesResponse) ''routes'' = Some 0"
  "find_field (struct_fields RoutesResponse) ''errorCodes'' = Some 1"
  "find_field (struct_fields Route) ''id'' = Some 0"
  "find_field (struct_fields Route) ''sections'' = Some 1"
  by code_simp+

lemma Unmarshal_r1_body:
  "Unmarshal env RoutesResponse (Valid r1_body) (zero RoutesResponse)
   = Inr (VStruct [VSlice (Some [VStruct [VString ''r1'', VSlice (Some [])]]),
                   VSlice (Some [VInt ErrorCodeSuccess])])"
proof -
  have n: "Unmarshalers env ''RoutesResponse'' = None" "Unmarshalers env ''Route'' = None"
    "Unmarshalers env ''ErrorCodes'' = Some (UnmarshalJSON env)"
    by (simp_all add: Unmarshalers_def)
  have T: "RoutesResponse = TNamed ''RoutesResponse'' (TStruct (struct_fields RoutesResponse))"
    by (simp add: RoutesResponse_def struct_fields_def)
  have R: "Route = TNamed ''Route'' (TStruct (struct_fields Route))"
    by (simp add: Route_def struct_fields_def)
  have z: "zero (TNamed ''RoutesResponse'' (TStruct (struct_fields RoutesResponse)))
      = (VStruct [VSlice None, VSlice None] :: 'a goval)"
    "zero (TNamed ''Route'' (TStruct (struct_fields Route)))
      = (VStruct [VString [], VSlice None] :: 'a goval)"
    by (simp_all add: RoutesResponse_def Route_def struct_fields_def ErrorCodes_def)
  have ft: "ftype (struct_fields RoutesResponse ! 0) = TSlice Route"
    "ftype (struct_fields RoutesResponse ! Suc 0) = TNamed ''ErrorCodes'' (TSlice ErrorCode)"
    "length (struct_fields RoutesResponse) = 2"
    "ftype (struct_fields Route ! 0) = TString"
    "ftype (struct_fields Route ! Suc 0) = TSlice Section"
    "length (struct_fields Route) = 2"
    by (simp_all add: RoutesResponse_def Route_def struct_fields_def ErrorCodes_def)
  have route: "decode (Unmarshalers env) env Route
      (JObject [(''id'', JString ''r1''), (''sections'', JArray [])]) (zero Route, s)
      = Inr (VStruct [VString ''r1'', VSlice (Some [])], s)" for s
    apply (subst (1 2) R)
    unfolding z by (simp add: n r1_fields ft)
  show ?thesis
    apply (subst (1 2) T)
    unfolding z Unmarshal_struct[OF n(1)] r1_body_def
    by (simp add: n r1_fields ft route UnmarshalJSON_0 ErrorCodeSuccess_def)
qed

text \<open>
  C6: when the transport collaborator creates the request and fills the response from
  the body \<open>{"routes":[{"id":"r1","sections":[]}],"errorCodes":[0]}\<close>, \<open>Routes\<close> returns, with
  no error, a \<open>RoutesResponse\<close> whose \<open>Routes\<close> is the one route with \<open>ID\<close> "r1" and an empty
  \<open>Sections\<close>, and whose \<open>ErrorCodes\<close> is the one-element sequence of \<open>ErrorCodeSuccess\<close>.
\<close>

theorem Routes_decodes_body:
  assumes "TransportMode_String l (TransportMode req) \<noteq> invalid"
    and "TransportMode_String l (TransportMode req) \<noteq> unspecified"
    and "URL_Parse l (URL s) ''routes'' = (u, None)"
    and "\<forall>q. snd (NewRequest (Client s) ctx u MethodGet q None) = None"
    and "\<forall>r. Do (Client s) r = Do_body env (Valid r1_body) r"
  shows "fst (Routes l s ctx req)
   = (Some (VStruct [VSlice (Some [VStruct [VString ''r1'', VSlice (Some [])]]),
                     VSlice (Some [VInt ErrorCodeSuccess])]), None)"
proof -
  have "e = None" if "NewRequest (Client s) ctx u MethodGet q None = (r, e)" for q r e
    using assms(4) that by (metis snd_conv)
  with assms(1,2,3,5) show ?thesis
    by (auto simp: Routes_def Let_def Do_body_def Unmarshal_r1_body split: prod.splits option.splits)
qed

theorem Routes_decodes_body_witness:
  "TransportMode_String plain_lib (TransportMode (plain_Request ''car'')) \<noteq> invalid \<and>
   TransportMode_String plain_lib (TransportMode (plain_Request ''car'')) \<noteq> unspecified \<and>
   URL_Parse plain_lib (URL (body_Service ''https://router.example/v8/'' (Valid r1_body))) ''routes''
     = (''https://router.example/v8/routes'', None) \<and>
   fst (Routes plain_lib (body_Service ''https://router.example/v8/'' (Valid r1_body)) ()
          (plain_Request ''car''))
   = (Some (VStruct [VSlice (Some [VStruct [VString ''r1'', VSlice (Some [])]]),
                     VSlice (Some [VInt ErrorCodeSuccess])]), None)"
proof -
  let ?s = "body_Service ''https://router.example/v8/'' (Valid r1_body)"
  have h: "TransportMode_String plain_lib (TransportMode (plain_Request ''car'')) \<noteq> invalid"
    "TransportMode_String plain_lib (TransportMode (plain_Request ''car'')) \<noteq> unspecified"
    "URL_Parse plain_lib (URL ?s) ''routes'' = (''https://router.example/v8/routes'', None)"
    "\<forall>q. snd (NewRequest (Client ?s) () ''https://router.example/v8/routes'' MethodGet q None) = None"
    "\<forall>r. Do (Client ?s) r = Do_body plain_env (Valid r1_body) r"
    by (simp_all add: plain_lib_def plain_Request_def invalid_def unspecified_def body_Service_def
          body_Client_def)
  from Routes_decodes_body[OF h] h(1,2,3) show ?thesis by simp
qed

text \<open>
  C7: whenever \<open>Routes\<close> returns an error, the response it returns is nil. For a valid
  transport mode: an error of the URL parser is returned as it is, and nothing is
  called; an error of \<open>NewRequest\<close> is returned as a new error whose message is
  "unable to create get request: " followed by the message of that error, and \<open>Do\<close> is
  not called; an error of \<open>Do\<close> is returned as it is.
\<close>

theorem Routes_failures:
  assumes "TransportMode_String l (TransportMode req) \<noteq> invalid"
    and "TransportMode_String l (TransportMode req) \<noteq> unspecified"
  shows "(snd (fst (Routes l s ctx req)) \<noteq> None \<longrightarrow> fst (fst (Routes l s ctx req)) = None)
    \<and> (URL_Parse l (URL s) ''routes'' = (u, Some err) \<longrightarrow>
         Routes l s ctx req = ((None, Some err), []))
    \<and> (URL_Parse l (URL s) ''routes'' = (u, None)
         \<and> (\<forall>q. snd (NewRequest (Client s) ctx u MethodGet q None) = Some err) \<longrightarrow>
         fst (Routes l s ctx req)
           = (None, Some (errorString (''unable to create get request: '' @ Error l err)))
         \<and> (\<forall>r. Do_call r \<notin> set (snd (Routes l s ctx req))))
    \<and> (URL_Parse l (URL s) ''routes'' = (u, None)
         \<and> (\<forall>q. snd (NewRequest (Client s) ctx u MethodGet q None) = None)
         \<and> (\<forall>r. snd (Do (Client s) r (zero RoutesResponse)) = Some err) \<longrightarrow>
         fst (Routes l s ctx req) = (None, Some err))"
proof (intro conjI impI)
  show "fst (fst (Routes l s ctx req)) = None" if "snd (fst (Routes l s ctx req)) \<noteq> None"
    using that
    by (auto simp: Routes_def Let_def split: prod.splits option.splits if_splits)
next
  assume "URL_Parse l (URL s) ''routes'' = (u, Some err)"
  with assms show "Routes l s ctx req = ((None, Some err), [])"
    by (simp add: Routes_def Let_def)
next
  assume a: "URL_Parse l (URL s) ''routes'' = (u, None)
         \<and> (\<forall>q. snd (NewRequest (Client s) ctx u MethodGet q None) = Some err)"
  then have n: "e = Some err" if "NewRequest (Client s) ctx u MethodGet q None = (r, e)" for q r e
    using that by (metis snd_conv)
  from a assms show "fst (Routes l s ctx req)
           = (None, Some (errorString (''unable to create get request: '' @ Error l err)))"
    by (auto simp: Routes_def Let_def Errorf_v_def split: prod.splits option.splits dest: n)
  from a assms show "\<forall>r. Do_call r \<notin> set (snd (Routes l s ctx req))"
    by (auto simp: Routes_def Let_def split: prod.splits option.splits dest: n)
next
  assume a: "URL_Parse l (URL s) ''routes'' = (u, None)
         \<and> (\<forall>q. snd (NewRequest (Client s) ctx u MethodGet q None) = None)
         \<and> (\<forall>r. snd (Do (Client s) r (zero RoutesResponse)) = Some err)"
  then have n: "e = None" if "NewRequest (Client s) ctx u MethodGet q None = (r, e)" for q r e
    using that by (metis snd_conv)
  from a have d: "e = Some err" if "Do (Client s) r (zero RoutesResponse) = (out, e)" for r out e
    using that by (metis snd_conv)
  from a assms show "fst (Routes l s ctx req) = (None, Some err)"
    by (auto simp: Routes_def Let_def split: prod.splits option.splits dest: n d)
qed

theorem Routes_failures_witness:
  "TransportMode_String plain_lib (TransportMode (plain_Request ''car'')) \<noteq> invalid \<and>
   TransportMode_String plain_lib (TransportMode (plain_Request ''car'')) \<noteq> unspecified \<and>
   URL_Parse plain_lib (URL (body_Service [] (Valid r1_body))) ''routes''
     = ([], Some (OtherError ''empty url'')) \<and>
   Routes plain_lib (body_Service [] (Valid r1_body)) () (plain_Request ''car'')
     = ((None, Some (OtherError ''empty url'')), []) \<and>
   URL_Parse plain_lib (URL (body_Service ''ftp://x/'' (Valid r1_body))) ''routes''
     = (''ftp://x/routes'', None) \<and>
   (\<forall>q. snd (NewRequest (Client (body_Service ''ftp://x/'' (Valid r1_body))) ()
              ''ftp://x/routes'' MethodGet q None)
        = Some (OtherError ''unsupported protocol scheme'')) \<and>
   fst (Routes plain_lib (body_Service ''ftp://x/'' (Valid r1_body)) () (plain_Request ''car''))
     = (None, Some (errorString (''unable to create get request: ''
                      @ Error plain_lib (OtherError ''unsupported protocol scheme'')))) \<and>
   URL_Parse plain_lib (URL (body_Service ''https://x/'' (Invalid ''unexpected end of JSON input'')))
       ''routes''
     = (''https://x/routes'', None) \<and>
   (\<forall>q. snd (NewRequest (Client (body_Service ''https://x/'' (Invalid ''unexpected end of JSON input'')))
              () ''https://x/routes'' MethodGet q None) = None) \<and>
   (\<forall>r. snd (Do (Client (body_Service ''https://x/'' (Invalid ''unexpected end of JSON input'')))
              r (zero RoutesResponse))
        = Some (SyntaxError ''unexpected end of JSON input'')) \<and>
   fst (Routes plain_lib (body_Service ''https://x/'' (Invalid ''unexpected end of JSON input'')) ()
          (plain_Request ''car''))
     = (None, Some (SyntaxError ''unexpected end of JSON input''))"
proof -
  have v: "TransportMode_String plain_lib (TransportMode (plain_Request ''car'')) \<noteq> invalid"
    "TransportMode_String plain_lib (TransportMode (plain_Request ''car'')) \<noteq> unspecified"
    by (simp_all add: plain_lib_def plain_Request_def invalid_def unspecified_def)
  have p1: "URL_Parse plain_lib (URL (body_Service [] (Valid r1_body))) ''routes''
     = ([], Some (OtherError ''empty url''))"
    by (simp add: plain_lib_def body_Service_def)
  have p2: "URL_Parse plain_lib (URL (body_Service ''ftp://x/'' (Valid r1_body))) ''routes''
     = (''ftp://x/routes'', None)"
    by (simp add: plain_lib_def body_Service_def)
  have n2: "\<forall>q. snd (NewRequest (Client (body_Service ''ftp://x/'' (Valid r1_body))) ()
              ''ftp://x/routes'' MethodGet q None)
        = Some (OtherError ''unsupported protocol scheme'')"
    by (simp add: body_Service_def body_Client_def)
  have p3: "URL_Parse plain_lib (URL (body_Service ''https://x/'' (Invalid ''unexpected end of JSON input'')))
       ''routes'' = (''https://x/routes'', None)"
    by (simp add: plain_lib_def body_Service_def)
  have n3: "\<forall>q. snd (NewRequest (Client (body_Service ''https://x/'' (Invalid ''unexpected end of JSON input'')))
              () ''https://x/routes'' MethodGet q None) = None"
    by (simp add: body_Service_def body_Client_def)
  have d3: "\<forall>r. snd (Do (Client (body_Service ''https://x/'' (Invalid ''unexpected end of JSON input'')))
              r (zero RoutesResponse))
        = Some (SyntaxError ''unexpected end of JSON input'')"
    by (simp add: body_Service_def body_Client_def Do_body_def Unmarshal_def json_Unmarshal_def)
  from Routes_failures[OF v, of "body_Service [] (Valid r1_body)" "()" "[]" "OtherError ''empty url''"] p1
  have c1: "Routes plain_lib (body_Service [] (Valid r1_body)) () (plain_Request ''car'')
     = ((None, Some (OtherError ''empty url'')), [])" by blast
  from Routes_failures[OF v, of "body_Service ''ftp://x/'' (Valid r1_body)" "()" "''ftp://x/routes''"
      "OtherError ''unsupported protocol scheme''"] p2 n2
  have c2: "fst (Routes plain_lib (body_Service ''ftp://x/'' (Valid r1_body)) () (plain_Request ''car''))
     = (None, Some (errorString (''unable to create get request: ''
                      @ Error plain_lib (OtherError ''unsupported protocol scheme''))))" by blast
  from Routes_failures[OF v, of "body_Service ''https://x/'' (Invalid ''unexpected end of JSON input'')"
      "()" "''https://x/routes''" "SyntaxError ''unexpected end of JSON input''"] p3 n3 d3
  have c3: "fst (Routes plain_lib (body_Service ''https://x/'' (Invalid ''unexpected end of JSON input'')) ()
          (plain_Request ''car''))
     = (None, Some (SyntaxError ''unexpected end of JSON input''))" by blast
  show ?thesis using v p1 c1 p2 n2 c2 p3 n3 d3 c3 by blast
qed


section \<open>The wire name of \<open>Notice.Details\<close>\<close>

text \<open>
  C8: every attribute is read and written under the camelCase name of the data model,
  \<open>Notice.Details\<close> under "details". The code does not do this for \<open>Details\<close>: its tag is
  spelled \<open>jsopn\<close>, so the field has no \<open>json\<close> tag and goes by its Go name. A \<open>Notice\<close> is
  written with the member "Details"; no field of \<open>Notice\<close> is named "details", and a
  member "details" is read into \<open>Details\<close> only because a key that equals no name is
  matched without regard to case.
\<close>

theorem Notice_Details_wire_name:
  "Marshal plain_env Notice
     (VStruct [VString ''t'', VString ''c'', VString ''s'',
               VSlice (Some [VStruct [VString ''ty'', VString ''ca'', VInt 7]])])
   = Inr (JObject [(''title'', JString ''t''), (''code'', JString ''c''),
                   (''severity'', JString ''s''),
                   (''Details'', JArray [JObject [(''type'', JString ''ty''),
                                                  (''cause'', JString ''ca''),
                                                  (''maxGrossWeight'', JInt 7)]])])
   \<and> map json_name (struct_fields Notice) = [''title'', ''code'', ''severity'', ''Details'']
   \<and> find_field (struct_fields Notice) ''Details'' = Some 3
   \<and> find_field (struct_fields Notice) ''details'' = Some 3
   \<and> index_where (\<lambda>f. \<not> json_ignored f \<and> json_name f = ''details'') (struct_fields Notice) = None"
  by code_simp


end
